theory Spec2Isabelle
  imports Main "HOL-Library.Word"
begin

section \<open>Python values used by \<open>backend/main.py\<close>\<close>

text \<open>
  A Python \<open>str\<close> is a sequence of Unicode code points; it is modelled as a list of
  naturals, so that \<open>str.strip\<close> sees one element per code point. ASCII literals of the
  source are written with \<open>py\<close>.
\<close>

type_synonym pystr = "nat list"

definition py :: "string \<Rightarrow> pystr" where
  "py s = map of_char s"

text \<open>
  The code points \<open>str.strip()\<close> removes when called without an argument
  (CPython's \<open>Py_UNICODE_ISSPACE\<close>): U+0009..U+000D, U+001C..U+0020, U+0085, U+00A0,
  U+1680, U+2000..U+200A, U+2028, U+2029, U+202F, U+205F, U+3000.
\<close>

definition isspace :: "nat \<Rightarrow> bool" where
  "isspace c =
     ((9 \<le> c \<and> c \<le> 13) \<or> (28 \<le> c \<and> c \<le> 32) \<or> c = 133 \<or> c = 160 \<or> c = 5760 \<or>
      (8192 \<le> c \<and> c \<le> 8202) \<or> c = 8232 \<or> c = 8233 \<or> c = 8239 \<or> c = 8287 \<or>
      c = 12288)"

definition strip :: "pystr \<Rightarrow> pystr" where
  "strip s = rev (dropWhile isspace (rev (dropWhile isspace s)))"

text \<open>An exception instance: its class name and \<open>str(e)\<close>.\<close>

datatype exn = Exn (exn_class: string) (str: pystr)

text \<open>
  \<open>isinstance(e, Exception)\<close>, which is what \<open>except Exception\<close> tests (lines 72 and
  105). The classes that derive from \<open>BaseException\<close> without deriving from
  \<open>Exception\<close> are \<open>BaseException\<close> itself, \<open>BaseExceptionGroup\<close>, \<open>GeneratorExit\<close>,
  \<open>KeyboardInterrupt\<close>, \<open>SystemExit\<close> and asyncio's \<open>CancelledError\<close>; an instance of
  one of them passes through both handlers.
\<close>

definition is_Exception :: "exn \<Rightarrow> bool" where
  "is_Exception e =
     (exn_class e \<notin> set [''BaseException'', ''BaseExceptionGroup'', ''GeneratorExit'',
                          ''KeyboardInterrupt'', ''SystemExit'', ''CancelledError''])"

text \<open>
  JSON-shaped Python values: what \<open>response.json()\<close> can return, and what the handler
  returns as a body. A \<open>dict\<close> is an association list read with \<open>map_of\<close>; a
  \<open>float\<close> is carried as mantissa and exponent (the handler never inspects a number).
\<close>

datatype json =
    JNull
  | JBool bool
  | JInt int
  | JFloat int int
  | JStr pystr
  | JList "json list"
  | JDict "(pystr \<times> json) list"

fun type_name :: "json \<Rightarrow> string" where
  "type_name JNull = ''NoneType''"
| "type_name (JBool _) = ''bool''"
| "type_name (JInt _) = ''int''"
| "type_name (JFloat _ _) = ''float''"
| "type_name (JStr _) = ''str''"
| "type_name (JList _) = ''list''"
| "type_name (JDict _) = ''dict''"

definition no_attribute :: "json \<Rightarrow> string \<Rightarrow> exn" where
  "no_attribute v a =
     Exn ''AttributeError''
       (py ([CHR 0x27] @ type_name v @ [CHR 0x27] @ '' object has no attribute '' @
            [CHR 0x27] @ a @ [CHR 0x27]))"

text \<open>\<open>v.get(k, d)\<close>: defined on a \<open>dict\<close> only; any other value has no such attribute.\<close>

fun dict_get :: "json \<Rightarrow> pystr \<Rightarrow> json \<Rightarrow> exn + json" where
  "dict_get (JDict kvs) k d = Inr (case map_of kvs k of None \<Rightarrow> d | Some v \<Rightarrow> v)"
| "dict_get v k d = Inl (no_attribute v ''get'')"

text \<open>\<open>v.strip()\<close>: defined on a \<open>str\<close> only.\<close>

fun str_strip :: "json \<Rightarrow> exn + pystr" where
  "str_strip (JStr s) = Inr (strip s)"
| "str_strip v = Inl (no_attribute v ''strip'')"

subsection \<open>\<open>base64.b64encode(...).decode()\<close>\<close>

definition b64_alphabet :: string where
  "b64_alphabet = ''ABCDEFGHIJKLMNOPQRSTUVWXYZabcdefghijklmnopqrstuvwxyz0123456789+/''"

definition b64_digit :: "nat \<Rightarrow> nat" where
  "b64_digit i = of_char (b64_alphabet ! (i mod 64))"

definition b64_pad :: nat where
  "b64_pad = of_char (CHR ''='')"

fun b64encode :: "8 word list \<Rightarrow> pystr" where
  "b64encode [] = []"
| "b64encode [a] =
     (let n = unat a * 65536
      in [b64_digit (n div 262144), b64_digit (n div 4096), b64_pad, b64_pad])"
| "b64encode [a, b] =
     (let n = unat a * 65536 + unat b * 256
      in [b64_digit (n div 262144), b64_digit (n div 4096), b64_digit (n div 64), b64_pad])"
| "b64encode (a # b # c # rest) =
     (let n = unat a * 65536 + unat b * 256 + unat c
      in [b64_digit (n div 262144), b64_digit (n div 4096), b64_digit (n div 64), b64_digit n]
         @ b64encode rest)"

section \<open>The external services\<close>

text \<open>
  The request \<open>requests.post\<close> sends (lines 57 to 71): URL, headers, JSON body, timeout.
\<close>

record mathpix_request =
  url :: pystr
  headers :: "(pystr \<times> pystr) list"
  json_body :: json
  timeout :: int

text \<open>
  The \<open>requests.Response\<close> object as the handler reads it: \<open>status_code\<close>, \<open>text\<close>
  (the raw body) and what calling \<open>json()\<close> on it returns or raises.
\<close>

record reply =
  status_code :: int
  body_text :: pystr
  json_result :: "exn + json"

text \<open>
  The computer algebra library (SymPy), as the handler uses it. Its code is not part
  of the repository, so the five operations are parameters: \<open>parse_latex\<close>,
  \<open>sympify\<close>, the subtraction of two expressions, \<open>simplify\<close>, and the comparison
  \<open>== 0\<close>, which returns a Python \<open>bool\<close>. Each of the first four may raise.
\<close>

record 'e sympy =
  parse_latex :: "pystr \<Rightarrow> exn + 'e"
  sympify :: "pystr \<Rightarrow> exn + 'e"
  subtract :: "'e \<Rightarrow> 'e \<Rightarrow> exn + 'e"
  simplify :: "'e \<Rightarrow> exn + 'e"
  eq_zero :: "'e \<Rightarrow> bool"

text \<open>What the handler does to the outside, in order: the trace of a request.\<close>

datatype event =
    NetPost mathpix_request
  | CallParseLatex pystr
  | CallSympify pystr
  | CallSimplify

text \<open>What the handler returns: a status and a JSON body.\<close>

record http_response =
  status :: int
  body :: json

section \<open>The module \<open>backend/main.py\<close>\<close>

subsection \<open>Configuration (lines 23 to 27)\<close>

text \<open>\<open>os.getenv(k, d)\<close> over the process environment, a map from names to values.\<close>

definition getenv :: "(pystr \<rightharpoonup> pystr) \<Rightarrow> pystr \<Rightarrow> pystr \<Rightarrow> pystr" where
  "getenv environ k d = (case environ k of None \<Rightarrow> d | Some v \<Rightarrow> v)"

definition MATHPIX_APP_ID :: "(pystr \<rightharpoonup> pystr) \<Rightarrow> pystr" where
  "MATHPIX_APP_ID environ = getenv environ (py ''MATHPIX_APP_ID'') (py ''YOUR_APP_ID'')"

definition MATHPIX_APP_KEY :: "(pystr \<rightharpoonup> pystr) \<Rightarrow> pystr" where
  "MATHPIX_APP_KEY environ = getenv environ (py ''MATHPIX_APP_KEY'') (py ''YOUR_APP_KEY'')"

definition CORRECT_ANSWER :: pystr where
  "CORRECT_ANSWER = py ''(x + 1)**2''"

subsection \<open>The outbound request (lines 57 to 71)\<close>

definition mathpix_headers :: "(pystr \<rightharpoonup> pystr) \<Rightarrow> (pystr \<times> pystr) list" where
  "mathpix_headers environ =
     [(py ''app_id'', MATHPIX_APP_ID environ),
      (py ''app_key'', MATHPIX_APP_KEY environ),
      (py ''Content-type'', py ''application/json'')]"

definition mathpix_data :: "pystr \<Rightarrow> json" where
  "mathpix_data img_base64 =
     JDict [(py ''src'', JStr (py ''data:image/png;base64,'' @ img_base64)),
            (py ''formats'', JList [JStr (py ''text'')]),
            (py ''data_options'', JDict [(py ''include_asciimath'', JBool False)])]"

definition mathpix_post :: "(pystr \<rightharpoonup> pystr) \<Rightarrow> pystr \<Rightarrow> mathpix_request" where
  "mathpix_post environ img_base64 =
     \<lparr>url = py ''https://api.mathpix.com/v3/text'',
      headers = mathpix_headers environ,
      json_body = mathpix_data img_base64,
      timeout = 15\<rparr>"

subsection \<open>Reading the transcription (line 84)\<close>

text \<open>\<open>response.json().get("text", "").strip()\<close>; each of the three calls may raise.\<close>

definition latex_text_of :: "reply \<Rightarrow> exn + pystr" where
  "latex_text_of response =
     (case json_result response of
        Inl e \<Rightarrow> Inl e
      | Inr j \<Rightarrow>
          (case dict_get j (py ''text'') (JStr []) of
             Inl e \<Rightarrow> Inl e
           | Inr v \<Rightarrow> str_strip v))"

subsection \<open>The comparison (the \<open>try\<close> body, lines 94 to 104)\<close>

text \<open>Truth value of \<open>correct_answer\<close>, a \<open>str | None\<close>: \<open>None\<close> and \<open>""\<close> are false.\<close>

definition truthy :: "pystr option \<Rightarrow> bool" where
  "truthy correct_answer = (case correct_answer of None \<Rightarrow> False | Some s \<Rightarrow> s \<noteq> [])"

text \<open>Line 96: \<open>correct_answer if correct_answer else CORRECT_ANSWER\<close>.\<close>

definition expected_answer :: "pystr option \<Rightarrow> pystr" where
  "expected_answer correct_answer =
     (if truthy correct_answer then the correct_answer else CORRECT_ANSWER)"

text \<open>
  The body of the \<open>try\<close>: the library calls it made, and either the exception that
  left it or \<open>(is_correct, feedback)\<close>.
\<close>

definition try_compare ::
  "'e sympy \<Rightarrow> pystr \<Rightarrow> pystr option \<Rightarrow> event list \<times> (exn + bool \<times> pystr)" where
  "try_compare lib latex_text correct_answer =
     (case parse_latex lib latex_text of
        Inl e \<Rightarrow> ([CallParseLatex latex_text], Inl e)
      | Inr student_expr \<Rightarrow>
          (let expected = expected_answer correct_answer in
           case sympify lib expected of
             Inl e \<Rightarrow> ([CallParseLatex latex_text, CallSympify expected], Inl e)
           | Inr correct_expr \<Rightarrow>
               (case subtract lib student_expr correct_expr of
                  Inl e \<Rightarrow> ([CallParseLatex latex_text, CallSympify expected], Inl e)
                | Inr difference \<Rightarrow>
                    (case simplify lib difference of
                       Inl e \<Rightarrow>
                         ([CallParseLatex latex_text, CallSympify expected, CallSimplify], Inl e)
                     | Inr simplified \<Rightarrow>
                         (let is_correct = eq_zero lib simplified;
                              feedback =
                                (if is_correct then py ''Correct! Well done.''
                                 else py ''Incorrect. Check your factoring and try again.'')
                          in ([CallParseLatex latex_text, CallSympify expected, CallSimplify],
                              Inr (is_correct, feedback)))))))"

subsection \<open>The handler \<open>submit_answer\<close> (lines 35 to 112)\<close>

text \<open>A returned \<open>dict\<close> is sent with status 200; \<open>JSONResponse\<close> carries its own status.\<close>

definition ok_response :: "json \<Rightarrow> http_response" where
  "ok_response content = \<lparr>status = 200, body = content\<rparr>"

definition JSONResponse :: "int \<Rightarrow> json \<Rightarrow> http_response" where
  "JSONResponse code content = \<lparr>status = code, body = content\<rparr>"

text \<open>
  The handler, given the process environment, the recognition service (what
  \<open>requests.post\<close> returns or raises for a request), the algebra library, the uploaded
  bytes and the optional form field. It returns the trace of outside calls and either
  the response or the exception that left the handler uncaught. Both \<open>except\<close> clauses
  are \<open>except Exception\<close>: an exception of another class is not caught.
\<close>

definition submit_answer ::
  "(pystr \<rightharpoonup> pystr) \<Rightarrow> (mathpix_request \<Rightarrow> exn + reply) \<Rightarrow> 'e sympy \<Rightarrow>
   8 word list \<Rightarrow> pystr option \<Rightarrow> event list \<times> (exn + http_response)" where
  "submit_answer environ post lib img_bytes correct_answer =
     (let img_base64 = b64encode img_bytes in
      if MATHPIX_APP_ID environ = py ''YOUR_APP_ID'' \<or>
         MATHPIX_APP_KEY environ = py ''YOUR_APP_KEY''
      then ([], Inr (ok_response (JDict
              [(py ''latex'', JStr []),
               (py ''correct'', JNull),
               (py ''feedback'', JStr (py
                  ''Backend connected! Configure MathPix keys to enable real math recognition.''))])))
      else
        (let request = mathpix_post environ img_base64 in
         case post request of
           Inl e \<Rightarrow>
             if is_Exception e
             then ([NetPost request], Inr (JSONResponse 500 (JDict
                     [(py ''error'', JStr (py ''Error calling MathPix: '' @ str e))])))
             else ([NetPost request], Inl e)
         | Inr response \<Rightarrow>
             if status_code response \<noteq> 200
             then ([NetPost request], Inr (JSONResponse 500 (JDict
                     [(py ''error'', JStr (py ''MathPix API error'')),
                      (py ''details'', JStr (body_text response))])))
             else
               (case latex_text_of response of
                  Inl e \<Rightarrow> ([NetPost request], Inl e)
                | Inr latex_text \<Rightarrow>
                    if latex_text = []
                    then ([NetPost request], Inr (ok_response (JDict
                            [(py ''latex'', JStr []),
                             (py ''correct'', JNull),
                             (py ''feedback'', JStr (py
                                ''Could not read your answer. Try writing more clearly.''))])))
                    else
                      (case try_compare lib latex_text correct_answer of
                         (calls, Inl e) \<Rightarrow>
                           if is_Exception e
                           then (NetPost request # calls, Inr (ok_response (JDict
                                   [(py ''latex'', JStr latex_text),
                                    (py ''correct'', JNull),
                                    (py ''feedback'',
                                       JStr (py ''Error processing your answer: '' @ str e))])))
                           else (NetPost request # calls, Inl e)
                       | (calls, Inr (is_correct, feedback)) \<Rightarrow>
                           (NetPost request # calls, Inr (ok_response (JDict
                              [(py ''latex'', JStr latex_text),
                               (py ''correct'', JBool is_correct),
                               (py ''feedback'', JStr feedback)])))))))"

text \<open>The field of a response body, as the caller reads it.\<close>

definition body_field :: "pystr \<Rightarrow> http_response \<Rightarrow> json option" where
  "body_field k r = (case body r of JDict kvs \<Rightarrow> map_of kvs k | _ \<Rightarrow> None)"

section \<open>A worked configuration\<close>

text \<open>
  Concrete inputs on which the handler is run below: an environment with both
  credentials set, a recognition reply that carries a given transcription, four
  bytes of an image (the start of a JPEG file), and a miniature algebra library.
  The library reads the strings of the specification's examples only; its expressions
  are polynomials in \<open>x\<close> with integer coefficients, lowest degree first. As
  \<open>sympify\<close> evaluates its argument as Python code, the library also reads one
  expression that calls \<open>sys.exit(3)\<close>, which raises \<open>SystemExit\<close>.
\<close>

definition demo_environ :: "pystr \<rightharpoonup> pystr" where
  "demo_environ =
     map_of [(py ''MATHPIX_APP_ID'', py ''demo-id''), (py ''MATHPIX_APP_KEY'', py ''demo-key'')]"

definition demo_reply :: "pystr \<Rightarrow> reply" where
  "demo_reply t =
     \<lparr>status_code = 200, body_text = [], json_result = Inr (JDict [(py ''text'', JStr t)])\<rparr>"


definition demo_exit_answer :: pystr where
  "demo_exit_answer = py ''__import__('sys').exit(3)''"

definition demo_image :: "8 word list" where
  "demo_image = [0xFF, 0xD8, 0xFF, 0xE0]"

fun poly_sub :: "int list \<Rightarrow> int list \<Rightarrow> int list" where
  "poly_sub [] q = map uminus q"
| "poly_sub p [] = p"
| "poly_sub (a # p) (b # q) = (a - b) # poly_sub p q"

definition poly_norm :: "int list \<Rightarrow> int list" where
  "poly_norm p = rev (dropWhile (\<lambda>c. c = 0) (rev p))"

definition demo_lib :: "int list sympy" where
  "demo_lib =
     \<lparr>parse_latex = (\<lambda>s.
        if s = py ''(x+1)^2'' then Inr [1, 2, 1]
        else if s = py ''x^2+1'' then Inr [1, 0, 1]
        else Inl (Exn ''LaTeXParsingError'' (py ''unsupported input''))),
      sympify = (\<lambda>s.
        if s = py ''(x + 1)**2'' then Inr [1, 2, 1]
        else if s = demo_exit_answer then Inl (Exn ''SystemExit'' (py ''3''))
        else Inl (Exn ''SympifyError'' (py ''could not parse''))),
      subtract = (\<lambda>p q. Inr (poly_sub p q)),
      simplify = (\<lambda>p. Inr (poly_norm p)),
      eq_zero = (\<lambda>p. p = [])\<rparr>"

section \<open>Basic facts\<close>

lemma py_eq_iff [simp]: "py a = py b \<longleftrightarrow> a = b"
  by (simp add: py_def inj_map_eq_map inj_of_char)

lemma py_Nil [simp]: "py [] = []"
  by (simp add: py_def)

lemma py_eq_Nil [simp]: "py a = [] \<longleftrightarrow> a = []"
  by (simp add: py_def)

lemma Nil_eq_py [simp]: "[] = py a \<longleftrightarrow> a = []"
  by (simp add: py_def)

text \<open>The encoder on known vectors: \<open>Man\<close>, \<open>Ma\<close>, \<open>M\<close> and the image of the examples.\<close>

lemma b64encode_vectors:
  "b64encode [0x4D, 0x61, 0x6E] = py ''TWFu''"
  "b64encode [0x4D, 0x61] = py ''TWE=''"
  "b64encode [0x4D] = py ''TQ==''"
  "b64encode demo_image = py ''/9j/4A==''"
  by (simp_all add: demo_image_def b64_digit_def b64_alphabet_def b64_pad_def py_def)

text \<open>Trimming leaves nothing exactly when every code point is white space.\<close>

lemma dropWhile_all_Nil: "list_all P (dropWhile P s) \<Longrightarrow> dropWhile P s = []"
  using hd_dropWhile [of P s] by (cases "dropWhile P s") auto

lemma strip_eq_Nil_iff: "strip s = [] \<longleftrightarrow> list_all isspace s"
proof
  assume "strip s = []"
  then have "list_all isspace (dropWhile isspace s)"
    by (simp add: strip_def dropWhile_eq_Nil_conv list_all_iff)
  then have "dropWhile isspace s = []"
    by (rule dropWhile_all_Nil)
  then show "list_all isspace s"
    by (simp add: dropWhile_eq_Nil_conv list_all_iff)
next
  assume "list_all isspace s"
  then have e: "dropWhile isspace s = []"
    by (simp add: list_all_iff)
  show "strip s = []"
    unfolding strip_def e by simp
qed

lemma configured_demo [simp]:
  "MATHPIX_APP_ID demo_environ = py ''demo-id''"
  "MATHPIX_APP_KEY demo_environ = py ''demo-key''"
  by (simp_all add: MATHPIX_APP_ID_def MATHPIX_APP_KEY_def getenv_def demo_environ_def)

lemma latex_text_of_demo:
  "latex_text_of (demo_reply (py '' (x+1)^2 '')) = Inr (py ''(x+1)^2'')"
  "latex_text_of (demo_reply (py ''(x+1)^2'')) = Inr (py ''(x+1)^2'')"
  "latex_text_of (demo_reply (py ''x^2+1'')) = Inr (py ''x^2+1'')"
  by (simp_all add: demo_reply_def latex_text_of_def strip_def isspace_def py_def)

subsection \<open>The \<open>try\<close> body\<close>

lemma expected_answer_cases:
  "expected_answer ca =
     (case ca of None \<Rightarrow> py ''(x + 1)**2''
      | Some a \<Rightarrow> if a = [] then py ''(x + 1)**2'' else a)"
  by (simp add: expected_answer_def truthy_def CORRECT_ANSWER_def split: option.splits)

lemma expected_answer_empty: "expected_answer (Some []) = expected_answer None"
  by (simp add: expected_answer_def truthy_def)

lemma try_compare_empty: "try_compare lib t (Some []) = try_compare lib t None"
  unfolding try_compare_def expected_answer_empty ..


lemma try_compare_first_call:
  "\<exists>calls. fst (try_compare lib t ca) = CallParseLatex t # calls"
  by (auto simp: try_compare_def Let_def split: sum.splits)

lemma try_compare_no_post:
  "try_compare lib t ca = (calls, res) \<Longrightarrow> NetPost request \<notin> set calls"
  by (auto simp: try_compare_def Let_def split: sum.splits)

lemma try_compare_sympify_arg:
  "try_compare lib t ca = (calls, res) \<Longrightarrow> CallSympify x \<in> set calls \<Longrightarrow>
   x = expected_answer ca"
  by (auto simp: try_compare_def Let_def split: sum.splits)

subsection \<open>The handler past the recognition step\<close>

text \<open>
  With credentials set, a reply of status 200 and a transcription that is not empty
  after trimming, the handler's result is the \<open>try\<close> body's, wrapped.
\<close>

lemma submit_answer_reached:
  assumes "MATHPIX_APP_ID environ \<noteq> py ''YOUR_APP_ID''"
    and "MATHPIX_APP_KEY environ \<noteq> py ''YOUR_APP_KEY''"
    and "post (mathpix_post environ (b64encode img_bytes)) = Inr response"
    and "status_code response = 200"
    and "latex_text_of response = Inr t"
    and "t \<noteq> []"
  shows "submit_answer environ post lib img_bytes ca =
     (NetPost (mathpix_post environ (b64encode img_bytes)) # fst (try_compare lib t ca),
      case snd (try_compare lib t ca) of
        Inl e \<Rightarrow>
          if is_Exception e
          then Inr \<lparr>status = 200, body = JDict
                   [(py ''latex'', JStr t), (py ''correct'', JNull),
                    (py ''feedback'', JStr (py ''Error processing your answer: '' @ str e))]\<rparr>
          else Inl e
      | Inr (is_correct, feedback) \<Rightarrow> Inr \<lparr>status = 200, body = JDict
                   [(py ''latex'', JStr t), (py ''correct'', JBool is_correct),
                    (py ''feedback'', JStr feedback)]\<rparr>)"
  using assms unfolding submit_answer_def Let_def ok_response_def
  by (simp split: prod.splits sum.splits)

lemma submit_answer_sympify_arg:
  "CallSympify x \<in> set (fst (submit_answer environ post lib img_bytes ca)) \<Longrightarrow>
   x = expected_answer ca"
  unfolding submit_answer_def Let_def
  by (auto split: if_splits sum.splits prod.splits dest: try_compare_sympify_arg)


section \<open>The claims\<close>

subsection \<open>The verdict of the comparison\<close>

text \<open>
  Claim C1. For a request that reaches the comparison (both credentials set, a reply of
  status 200, a transcription \<open>t\<close> that is not empty after trimming), the handler's
  first library call is \<open>parse_latex\<close> on \<open>t\<close>, and it returns a response whose field
  \<open>correct\<close> is \<open>true\<close> if and only if \<open>parse_latex\<close> reads \<open>t\<close>, \<open>sympify\<close> reads the
  expected string, and the simplified difference compares equal to zero. The expected
  string is the caller's \<open>correct_answer\<close>, or \<open>(x + 1)**2\<close> when none (or the empty
  string) is supplied. The handler returns a response of status 200 unless the library
  raised an exception that does not derive from \<open>Exception\<close>.
\<close>

theorem comparator_verdict:
  assumes "MATHPIX_APP_ID environ \<noteq> py ''YOUR_APP_ID''"
    and "MATHPIX_APP_KEY environ \<noteq> py ''YOUR_APP_KEY''"
    and "post (mathpix_post environ (b64encode img_bytes)) = Inr response"
    and "status_code response = 200"
    and "latex_text_of response = Inr t"
    and "t \<noteq> []"
    and "expected = (case correct_answer of None \<Rightarrow> py ''(x + 1)**2''
                     | Some a \<Rightarrow> if a = [] then py ''(x + 1)**2'' else a)"
  shows "\<exists>calls res.
           submit_answer environ post lib img_bytes correct_answer =
             (NetPost (mathpix_post environ (b64encode img_bytes)) # CallParseLatex t # calls,
              res) \<and>
           ((\<exists>r. res = Inr r \<and> status r = 200) \<or> (\<exists>e. res = Inl e \<and> \<not> is_Exception e)) \<and>
           ((\<exists>r. res = Inr r \<and> body_field (py ''correct'') r = Some (JBool True)) \<longleftrightarrow>
              (\<exists>s c d z. parse_latex lib t = Inr s \<and> sympify lib expected = Inr c \<and>
                 subtract lib s c = Inr d \<and> simplify lib d = Inr z \<and> eq_zero lib z))"
proof -
  let ?zero = "\<exists>s c d z. parse_latex lib t = Inr s \<and> sympify lib expected = Inr c \<and>
                 subtract lib s c = Inr d \<and> simplify lib d = Inr z \<and> eq_zero lib z"
  have ex: "expected = expected_answer correct_answer"
    by (simp add: assms(7) expected_answer_cases)
  have verdict: "(\<exists>f. snd (try_compare lib t correct_answer) = Inr (True, f)) \<longleftrightarrow> ?zero"
    unfolding ex by (auto simp: try_compare_def Let_def split: sum.splits)
  obtain calls where calls: "fst (try_compare lib t correct_answer) = CallParseLatex t # calls"
    using try_compare_first_call by blast
  note run = submit_answer_reached
    [where post = post and lib = lib and ca = correct_answer, OF assms(1-6)]
  show ?thesis
  proof (cases "snd (try_compare lib t correct_answer)")
    case (Inl e)
    with verdict have "\<not> ?zero" by simp
    then show ?thesis
      using run Inl calls by (simp add: body_field_def)
  next
    case (Inr bf)
    obtain b f where bf: "bf = (b, f)" by (cases bf)
    from Inr bf verdict have "?zero \<longleftrightarrow> b" by auto
    then show ?thesis
      using run Inr bf calls by (simp add: body_field_def)
  qed
qed

text \<open>
  The example of the specification: the transcription \<open>(x+1)^2\<close> (returned with
  surrounding blanks) against the default answer is judged correct.
\<close>

theorem comparator_verdict_witness:
  "latex_text_of (demo_reply (py '' (x+1)^2 '')) = Inr (py ''(x+1)^2'') \<and>
   (\<exists>calls r.
      submit_answer demo_environ (\<lambda>_. Inr (demo_reply (py '' (x+1)^2 ''))) demo_lib
          demo_image None =
        (NetPost (mathpix_post demo_environ (b64encode demo_image)) #
           CallParseLatex (py ''(x+1)^2'') # calls, Inr r) \<and>
      status r = 200 \<and> body_field (py ''correct'') r = Some (JBool True))"
proof -
  have zero: "\<exists>s c d z. parse_latex demo_lib (py ''(x+1)^2'') = Inr s \<and>
      sympify demo_lib (py ''(x + 1)**2'') = Inr c \<and> subtract demo_lib s c = Inr d \<and>
      simplify demo_lib d = Inr z \<and> eq_zero demo_lib z"
    by (simp add: demo_lib_def poly_norm_def)
  from comparator_verdict [where environ = demo_environ
      and post = "\<lambda>_. Inr (demo_reply (py '' (x+1)^2 ''))" and lib = demo_lib
      and img_bytes = demo_image and correct_answer = None
      and response = "demo_reply (py '' (x+1)^2 '')" and t = "py ''(x+1)^2''"
      and expected = "py ''(x + 1)**2''"] latex_text_of_demo(1) zero
  show ?thesis
    by (auto simp: demo_reply_def)
qed

subsection \<open>Exceptions of the comparison\<close>




subsection \<open>Credentials not configured\<close>

text \<open>
  Claim C3. If either credential is unset in the environment or equal to its
  placeholder, the handler makes no outside call (the trace is empty) and returns
  status 200 with the fixed payload (\<open>latex\<close> empty, \<open>correct\<close> null, the notice as
  feedback), whatever the image, the expected answer, the recognition service and the
  library are.
\<close>

theorem unconfigured_short_circuit:
  assumes "environ (py ''MATHPIX_APP_ID'') = None \<or>
           environ (py ''MATHPIX_APP_ID'') = Some (py ''YOUR_APP_ID'') \<or>
           environ (py ''MATHPIX_APP_KEY'') = None \<or>
           environ (py ''MATHPIX_APP_KEY'') = Some (py ''YOUR_APP_KEY'')"
  shows "submit_answer environ post lib img_bytes correct_answer =
           ([], Inr \<lparr>status = 200,
                     body = JDict
                       [(py ''latex'', JStr []),
                        (py ''correct'', JNull),
                        (py ''feedback'', JStr (py
                           ''Backend connected! Configure MathPix keys to enable real math recognition.''))]\<rparr>)"
proof -
  from assms
  have "MATHPIX_APP_ID environ = py ''YOUR_APP_ID'' \<or>
        MATHPIX_APP_KEY environ = py ''YOUR_APP_KEY''"
    by (auto simp: MATHPIX_APP_ID_def MATHPIX_APP_KEY_def getenv_def)
  then show ?thesis
    unfolding submit_answer_def Let_def ok_response_def by auto
qed

text \<open>With an empty environment, a service that would answer is never asked.\<close>

theorem unconfigured_short_circuit_witness:
  "submit_answer Map.empty (\<lambda>_. Inr (demo_reply (py ''(x+1)^2''))) demo_lib demo_image
     (Some (py ''x**2''))
   = ([], Inr \<lparr>status = 200,
                body = JDict
                  [(py ''latex'', JStr []),
                   (py ''correct'', JNull),
                   (py ''feedback'', JStr (py
                      ''Backend connected! Configure MathPix keys to enable real math recognition.''))]\<rparr>)"
  using unconfigured_short_circuit [of Map.empty] by simp

subsection \<open>An empty transcription\<close>

text \<open>
  Claim C4. With credentials set and a reply of status 200 whose JSON value gives, for
  \<open>text\<close> (or by default), a string that is empty after trimming, the handler returns
  status 200 with \<open>latex\<close> empty, \<open>correct\<close> null and the could-not-read notice, for
  every expected answer and library; the trace holds the one recognition call and no
  library call.
\<close>

theorem empty_transcription_not_compared:
  assumes "MATHPIX_APP_ID environ \<noteq> py ''YOUR_APP_ID''"
    and "MATHPIX_APP_KEY environ \<noteq> py ''YOUR_APP_KEY''"
    and "post (mathpix_post environ (b64encode img_bytes)) = Inr response"
    and "status_code response = 200"
    and "json_result response = Inr j"
    and "dict_get j (py ''text'') (JStr []) = Inr (JStr t)"
    and "strip t = []"
  shows "submit_answer environ post lib img_bytes correct_answer =
           ([NetPost (mathpix_post environ (b64encode img_bytes))],
            Inr \<lparr>status = 200,
                 body = JDict
                   [(py ''latex'', JStr []),
                    (py ''correct'', JNull),
                    (py ''feedback'', JStr (py
                       ''Could not read your answer. Try writing more clearly.''))]\<rparr>)"
proof -
  have "latex_text_of response = Inr []"
    using assms(5-7) by (simp add: latex_text_of_def)
  with assms(1-4) show ?thesis
    unfolding submit_answer_def Let_def ok_response_def by simp
qed

text \<open>A transcription of a blank, a line feed and an ideographic space (U+3000).\<close>

theorem empty_transcription_not_compared_witness:
  "strip [32, 10, 12288] = [] \<and>
   submit_answer demo_environ (\<lambda>_. Inr (demo_reply [32, 10, 12288])) demo_lib demo_image
     (Some (py ''x**2''))
   = ([NetPost (mathpix_post demo_environ (b64encode demo_image))],
      Inr \<lparr>status = 200,
           body = JDict
             [(py ''latex'', JStr []),
              (py ''correct'', JNull),
              (py ''feedback'', JStr (py
                 ''Could not read your answer. Try writing more clearly.''))]\<rparr>)"
proof -
  have blank: "strip [32, 10, 12288] = []"
    by (simp add: strip_def isspace_def)
  show ?thesis
    using empty_transcription_not_compared [where environ = demo_environ
        and post = "\<lambda>_. Inr (demo_reply [32, 10, 12288])"
        and response = "demo_reply [32, 10, 12288]"
        and j = "JDict [(py ''text'', JStr [32, 10, 12288])]" and t = "[32, 10, 12288]"] blank
    by (simp add: demo_reply_def)
qed

subsection \<open>Failures of the recognition call\<close>

text \<open>
  Claim C5. With credentials set: if \<open>requests.post\<close> raises \<open>e\<close>, a transport exception
  (every exception of \<open>requests\<close> derives from \<open>Exception\<close>), the handler returns status
  500 with the body \<open>error: Error calling MathPix: \<close> followed by \<open>str(e)\<close>; if the
  reply's status is not 200, it returns status 500 with \<open>error: MathPix API error\<close> and
  \<open>details\<close> the raw body. In both cases the trace is the one recognition call. (An
  exception that does not derive from \<open>Exception\<close> passes line 72, after the one call.)
\<close>

theorem recognition_failure_is_terminal:
  assumes "MATHPIX_APP_ID environ \<noteq> py ''YOUR_APP_ID''"
    and "MATHPIX_APP_KEY environ \<noteq> py ''YOUR_APP_KEY''"
    and "request = mathpix_post environ (b64encode img_bytes)"
  shows "(post request = Inl e \<longrightarrow>
            submit_answer environ post lib img_bytes correct_answer =
              ([NetPost request],
               if is_Exception e
               then Inr \<lparr>status = 500,
                         body = JDict
                           [(py ''error'', JStr (py ''Error calling MathPix: '' @ str e))]\<rparr>
               else Inl e))
       \<and> (post request = Inr response \<and> status_code response \<noteq> 200 \<longrightarrow>
            submit_answer environ post lib img_bytes correct_answer =
              ([NetPost request],
               Inr \<lparr>status = 500,
                    body = JDict [(py ''error'', JStr (py ''MathPix API error'')),
                                  (py ''details'', JStr (body_text response))]\<rparr>))"
  using assms unfolding submit_answer_def Let_def JSONResponse_def by simp

text \<open>A connection that times out, and a reply of status 401.\<close>

theorem recognition_failure_is_terminal_witness:
  "submit_answer demo_environ (\<lambda>_. Inl (Exn ''ConnectTimeout'' (py ''timed out''))) demo_lib
     demo_image None
   = ([NetPost (mathpix_post demo_environ (b64encode demo_image))],
      Inr \<lparr>status = 500,
           body = JDict [(py ''error'', JStr (py ''Error calling MathPix: timed out''))]\<rparr>)
   \<and> submit_answer demo_environ
       (\<lambda>_. Inr \<lparr>status_code = 401, body_text = py ''Invalid credentials'',
                   json_result = Inl (Exn ''JSONDecodeError'' (py ''Expecting value''))\<rparr>)
       demo_lib demo_image None
   = ([NetPost (mathpix_post demo_environ (b64encode demo_image))],
      Inr \<lparr>status = 500,
           body = JDict [(py ''error'', JStr (py ''MathPix API error'')),
                         (py ''details'', JStr (py ''Invalid credentials''))]\<rparr>)"
  using recognition_failure_is_terminal [where environ = demo_environ
      and post = "\<lambda>_. Inl (Exn ''ConnectTimeout'' (py ''timed out''))"
      and e = "Exn ''ConnectTimeout'' (py ''timed out'')" and img_bytes = demo_image
      and lib = demo_lib and correct_answer = None, OF _ _ refl]
    recognition_failure_is_terminal [where environ = demo_environ
      and post = "\<lambda>_. Inr \<lparr>status_code = 401, body_text = py ''Invalid credentials'',
                   json_result = Inl (Exn ''JSONDecodeError'' (py ''Expecting value''))\<rparr>"
      and response = "\<lparr>status_code = 401, body_text = py ''Invalid credentials'',
                   json_result = Inl (Exn ''JSONDecodeError'' (py ''Expecting value''))\<rparr>"
      and img_bytes = demo_image
      and lib = demo_lib and correct_answer = None, OF _ _ refl]
  by (simp add: py_def is_Exception_def)

subsection \<open>The shape of every response\<close>




subsection \<open>A reply that is not the expected JSON\<close>

text \<open>
  Claim C7, at three replies of status 200. A body that is not JSON makes \<open>json()\<close>
  raise; a JSON array has no \<open>get\<close>; a \<open>text\<close> that is null has no \<open>strip\<close>. Line 84
  stands outside both \<open>try\<close> statements, so each exception leaves the handler
  uncaught: the handler returns no response.
\<close>

theorem malformed_reply_escapes:
  \<open>snd (submit_answer demo_environ
          (\<lambda>_. Inr \<lparr>status_code = 200, body_text = py ''<html>Bad Gateway</html>'',
                      json_result = Inl (Exn ''JSONDecodeError''
                        (py ''Expecting value: line 1 column 1 (char 0)''))\<rparr>)
          demo_lib demo_image None)
     = Inl (Exn ''JSONDecodeError'' (py ''Expecting value: line 1 column 1 (char 0)''))
   \<and> snd (submit_answer demo_environ
          (\<lambda>_. Inr \<lparr>status_code = 200, body_text = py ''[]'', json_result = Inr (JList [])\<rparr>)
          demo_lib demo_image None)
     = Inl (no_attribute (JList []) ''get'')
   \<and> snd (submit_answer demo_environ
          (\<lambda>_. Inr \<lparr>status_code = 200, body_text = py ''{"text": null}'',
                      json_result = Inr (JDict [(py ''text'', JNull)])\<rparr>)
          demo_lib demo_image None)
     = Inl (no_attribute JNull ''strip'')\<close>
  by (simp add: submit_answer_def Let_def latex_text_of_def)

subsection \<open>An empty expected answer\<close>

text \<open>
  Claim C9. An expected answer supplied as the empty string gives the same trace and
  response as an omitted one: the expected string is the default \<open>(x + 1)**2\<close>, and
  \<open>sympify\<close> is never called on the empty string.
\<close>

theorem empty_expected_same_as_omitted:
  "submit_answer environ post lib img_bytes (Some []) =
     submit_answer environ post lib img_bytes None \<and>
   expected_answer (Some []) = py ''(x + 1)**2'' \<and>
   CallSympify [] \<notin> set (fst (submit_answer environ post lib img_bytes (Some [])))"
proof -
  have "expected_answer (Some []) = py ''(x + 1)**2''"
    by (simp add: expected_answer_def truthy_def CORRECT_ANSWER_def)
  moreover from this
  have "CallSympify [] \<notin> set (fst (submit_answer environ post lib img_bytes (Some [])))"
    using submit_answer_sympify_arg [of "[]" environ post lib img_bytes "Some []"] by auto
  moreover
  have "submit_answer environ post lib img_bytes (Some []) =
     submit_answer environ post lib img_bytes None"
    unfolding submit_answer_def try_compare_empty ..
  ultimately show ?thesis by simp
qed

subsection \<open>The body of the outbound request\<close>

text \<open>
  Claim C10. Every recognition call in the trace carries a JSON body whose \<open>src\<close> is
  \<open>data:image/png;base64,\<close> followed by the base64 encoding of the uploaded bytes,
  whatever those bytes are, and whose \<open>formats\<close> is the list holding \<open>text\<close> alone.
\<close>

theorem outbound_request_body:
  assumes "NetPost request \<in> set (fst (submit_answer environ post lib img_bytes correct_answer))"
  shows "\<exists>kvs. json_body request = JDict kvs \<and>
           map_of kvs (py ''src'') =
             Some (JStr (py ''data:image/png;base64,'' @ b64encode img_bytes)) \<and>
           map_of kvs (py ''formats'') = Some (JList [JStr (py ''text'')])"
proof -
  from assms have "request = mathpix_post environ (b64encode img_bytes)"
    unfolding submit_answer_def Let_def
    by (auto split: if_splits sum.splits prod.splits dest: try_compare_no_post)
  then show ?thesis
    by (simp add: mathpix_post_def mathpix_data_def)
qed

text \<open>The bytes of the example start a JPEG file; the label is PNG all the same.\<close>

theorem outbound_request_body_witness:
  "NetPost (mathpix_post demo_environ (py ''/9j/4A==''))
     \<in> set (fst (submit_answer demo_environ (\<lambda>_. Inr (demo_reply (py ''x^2+1''))) demo_lib
                   demo_image None))
   \<and> (\<exists>kvs. json_body (mathpix_post demo_environ (py ''/9j/4A=='')) = JDict kvs \<and>
           map_of kvs (py ''src'') = Some (JStr (py ''data:image/png;base64,/9j/4A=='')) \<and>
           map_of kvs (py ''formats'') = Some (JList [JStr (py ''text'')]))"
proof -
  note enc = b64encode_vectors(4)
  have run: "NetPost (mathpix_post demo_environ (py ''/9j/4A==''))
     \<in> set (fst (submit_answer demo_environ (\<lambda>_. Inr (demo_reply (py ''x^2+1''))) demo_lib
                   demo_image None))"
    by (simp add: submit_answer_def Let_def enc demo_reply_def latex_text_of_def strip_def
        isspace_def py_def split: prod.splits sum.splits)
  from outbound_request_body [OF run] run show ?thesis
    by (simp add: enc py_def)
qed

end
